theory Spec2Isabelle
  imports Main "HOL-Library.Word"
begin

section \<open>The host buffer of cuML: \<^verbatim>\<open>src/cuML/src/common/host_buffer.hpp\<close>\<close>

text \<open>
  \<^verbatim>\<open>host_buffer<T>\<close> owns a block of host memory that it obtains from a
  \<^verbatim>\<open>hostAllocator\<close> and returns to it. The class has four fields
  (\<^verbatim>\<open>_allocator\<close>, \<^verbatim>\<open>_size\<close>, \<^verbatim>\<open>_capacity\<close>, \<^verbatim>\<open>_data\<close>); everything else it
  touches is outside the class: the allocator object, the CUDA runtime and the host memory.

  The embedding keeps the two apart. A buffer is a record of the four fields. The outside
  is a record \<open>world\<close>: the state of the external objects, the bytes of host memory, and the
  list of the calls made to the allocator and to the CUDA runtime, oldest first. A member
  function takes the buffer and the world and returns both; a member function that can
  throw returns \<open>Inl\<close> of the exception together with the buffer and the world as the
  exception leaves them, so that the state after a caught exception can be inspected.

  Calls on a stream are taken in the order of their submission: the embedding does not
  model the delay between the submission of an asynchronous copy and its completion.
\<close>

subsection \<open>Machine types\<close>

type_synonym size_type = "64 word" \<comment> \<open>\<^verbatim>\<open>std::size_t\<close>: arithmetic wraps modulo \<open>2 ^ 64\<close>\<close>
type_synonym pointer = "64 word" \<comment> \<open>\<^verbatim>\<open>value_type*\<close>; \<open>0\<close> is the null pointer\<close>
type_synonym byte = "8 word"
type_synonym cudaStream_t = nat \<comment> \<open>an opaque handle; \<open>0\<close> is the default stream\<close>

datatype cudaError_t = cudaSuccess | cudaErrorCode nat

datatype error =
    AllocationError \<comment> \<open>thrown by \<^verbatim>\<open>hostAllocator::allocate\<close>\<close>
  | CudaError cudaError_t \<comment> \<open>thrown by \<^verbatim>\<open>CUDA_CHECK\<close>\<close>

subsection \<open>The external collaborators\<close>

text \<open>
  \<^verbatim>\<open>hostAllocator\<close> is an abstract class declared in \<^verbatim>\<open>cuML.hpp\<close>, and the CUDA runtime
  is a library: neither is part of the file, so both are parameters. \<open>'e\<close> is the state of
  the external objects. \<open>allocate\<close> returns \<open>None\<close> when it throws; \<open>deallocate\<close> returns
  nothing and does not throw. The element size \<^verbatim>\<open>sizeof(value_type)\<close> comes with the
  template argument and is a parameter too.
\<close>

record 'e hostAllocator =
  allocate :: "size_type \<Rightarrow> cudaStream_t \<Rightarrow> 'e \<Rightarrow> pointer option \<times> 'e"
  deallocate :: "pointer \<Rightarrow> size_type \<Rightarrow> cudaStream_t \<Rightarrow> 'e \<Rightarrow> 'e"

record 'e platform =
  sizeof_value_type :: size_type
  cudaStreamSynchronize :: "cudaStream_t \<Rightarrow> 'e \<Rightarrow> cudaError_t \<times> 'e"
  cudaMemcpyAsync :: "pointer \<Rightarrow> pointer \<Rightarrow> size_type \<Rightarrow> cudaStream_t \<Rightarrow> 'e \<Rightarrow> cudaError_t \<times> 'e"

datatype call =
    Allocate size_type cudaStream_t "pointer option" \<comment> \<open>bytes, stream, the block returned\<close>
  | Deallocate pointer size_type cudaStream_t \<comment> \<open>block, bytes, stream\<close>
  | StreamSynchronize cudaStream_t cudaError_t
  | MemcpyAsync pointer pointer size_type cudaStream_t cudaError_t \<comment> \<open>destination, source, bytes, stream, status\<close>

record 'e world =
  ext :: 'e
  host_mem :: "nat \<Rightarrow> byte"
  calls :: "call list"

text \<open>Each external call changes the external state and is written to the list of calls.\<close>

definition call_allocate ::
  "'e hostAllocator \<Rightarrow> size_type \<Rightarrow> cudaStream_t \<Rightarrow> 'e world \<Rightarrow> pointer option \<times> 'e world" where
  "call_allocate A bytes stream w =
     (case allocate A bytes stream (ext w) of
        (r, e) \<Rightarrow> (r, w\<lparr>ext := e, calls := calls w @ [Allocate bytes stream r]\<rparr>))"

definition call_deallocate ::
  "'e hostAllocator \<Rightarrow> pointer \<Rightarrow> size_type \<Rightarrow> cudaStream_t \<Rightarrow> 'e world \<Rightarrow> 'e world" where
  "call_deallocate A p bytes stream w =
     w\<lparr>ext := deallocate A p bytes stream (ext w),
       calls := calls w @ [Deallocate p bytes stream]\<rparr>"

definition call_cudaStreamSynchronize ::
  "'e platform \<Rightarrow> cudaStream_t \<Rightarrow> 'e world \<Rightarrow> cudaError_t \<times> 'e world" where
  "call_cudaStreamSynchronize P stream w =
     (case cudaStreamSynchronize P stream (ext w) of
        (status, e) \<Rightarrow> (status, w\<lparr>ext := e, calls := calls w @ [StreamSynchronize stream status]\<rparr>))"

text \<open>
  A copy of \<open>n\<close> bytes from address \<open>src\<close> to address \<open>dst\<close>. Host memory is one array of
  bytes indexed by address.
\<close>

definition copy_bytes :: "nat \<Rightarrow> nat \<Rightarrow> nat \<Rightarrow> (nat \<Rightarrow> byte) \<Rightarrow> (nat \<Rightarrow> byte)" where
  "copy_bytes dst src n mem = (\<lambda>a. if dst \<le> a \<and> a < dst + n then mem (src + (a - dst)) else mem a)"

definition call_cudaMemcpyAsync ::
  "'e platform \<Rightarrow> pointer \<Rightarrow> pointer \<Rightarrow> size_type \<Rightarrow> cudaStream_t \<Rightarrow> 'e world \<Rightarrow> cudaError_t \<times> 'e world" where
  "call_cudaMemcpyAsync P dst src bytes stream w =
     (case cudaMemcpyAsync P dst src bytes stream (ext w) of
        (status, e) \<Rightarrow>
          (status,
           w\<lparr>ext := e,
             host_mem := (if status = cudaSuccess
                          then copy_bytes (unat dst) (unat src) (unat bytes) (host_mem w)
                          else host_mem w),
             calls := calls w @ [MemcpyAsync dst src bytes stream status]\<rparr>))"

text \<open>
  \<^verbatim>\<open>CUDA_CHECK\<close> is a macro defined outside the class, in \<^verbatim>\<open>ml-prims/src/utils.h\<close>,
  which the header includes: it throws when the status of the call is not
  \<^verbatim>\<open>cudaSuccess\<close>. \<open>None\<close> means that the check passed.
\<close>

definition CUDA_CHECK :: "cudaError_t \<Rightarrow> error option" where
  "CUDA_CHECK status = (if status = cudaSuccess then None else Some (CudaError status))"

subsection \<open>The class\<close>

record 'e host_buffer =
  m_allocator :: "'e hostAllocator"
  m_size :: size_type
  m_capacity :: size_type
  m_data :: pointer

type_synonym 'e state = "'e host_buffer \<times> 'e world"

text \<open>The constructor. When it throws there is no object, and only the world is left.\<close>

definition host_buffer_ctor ::
  "'e platform \<Rightarrow> 'e hostAllocator \<Rightarrow> size_type \<Rightarrow> 'e world \<Rightarrow> (error \<times> 'e world) + 'e state" where
  "host_buffer_ctor P allocator n w =
     (let b = \<lparr>m_allocator = allocator, m_size = n, m_capacity = n, m_data = 0\<rparr> in
      if 0 < m_capacity b then
        (case call_allocate (m_allocator b) (m_capacity b * sizeof_value_type P) 0 w of
           (None, w1) \<Rightarrow> Inl (AllocationError, w1)
         | (Some p, w1) \<Rightarrow>
             (case call_cudaStreamSynchronize P 0 w1 of
                (status, w2) \<Rightarrow>
                  (case CUDA_CHECK status of
                     Some err \<Rightarrow> Inl (err, w2)
                   | None \<Rightarrow> Inr (b\<lparr>m_data := p\<rparr>, w2))))
      else Inr (b, w))"

text \<open>The destructor.\<close>

fun host_buffer_dtor :: "'e platform \<Rightarrow> 'e state \<Rightarrow> 'e world" where
  "host_buffer_dtor P (b, w) =
     (if m_data b \<noteq> 0
      then call_deallocate (m_allocator b) (m_data b) (m_capacity b * sizeof_value_type P) 0 w
      else w)"

text \<open>
  \<^verbatim>\<open>operator[]\<close> returns a reference to the element at \<^verbatim>\<open>_data + pos\<close>, with no check of
  \<open>pos\<close>. Reading through the reference gives the \<^verbatim>\<open>sizeof(value_type)\<close> bytes of the
  element; writing through it stores them.
\<close>

definition element_address :: "'e platform \<Rightarrow> 'e host_buffer \<Rightarrow> size_type \<Rightarrow> nat" where
  "element_address P b pos = unat (m_data b) + unat pos * unat (sizeof_value_type P)"

fun subscript :: "'e platform \<Rightarrow> size_type \<Rightarrow> 'e state \<Rightarrow> byte list" where
  "subscript P pos (b, w) =
     map (\<lambda>k. host_mem w (element_address P b pos + k)) [0..<unat (sizeof_value_type P)]"

fun subscript_assign :: "'e platform \<Rightarrow> size_type \<Rightarrow> byte list \<Rightarrow> 'e state \<Rightarrow> 'e state" where
  "subscript_assign P pos v (b, w) =
     (b, w\<lparr>host_mem := (\<lambda>a. if element_address P b pos \<le> a
                                  \<and> a < element_address P b pos + unat (sizeof_value_type P)
                                  \<and> a - element_address P b pos < length v
                               then v ! (a - element_address P b pos)
                               else host_mem w a)\<rparr>)"

definition data :: "'e host_buffer \<Rightarrow> pointer" where
  "data b = m_data b"

definition size_buf :: "'e host_buffer \<Rightarrow> size_type" where
  "size_buf b = m_size b"

fun resize :: "'e platform \<Rightarrow> size_type \<Rightarrow> cudaStream_t \<Rightarrow> 'e state \<Rightarrow> (error \<times> 'e state) + 'e state" where
  "resize P new_size stream (b, w) =
     (if m_capacity b < new_size then
        (case call_allocate (m_allocator b) (new_size * sizeof_value_type P) stream w of
           (None, w1) \<Rightarrow> Inl (AllocationError, (b, w1))
         | (Some new_data, w1) \<Rightarrow>
             (case (if 0 < m_size b
                    then (case call_cudaMemcpyAsync P new_data (m_data b)
                                 (m_size b * sizeof_value_type P) stream w1 of
                            (status, w2) \<Rightarrow> (CUDA_CHECK status, w2))
                    else (None, w1)) of
                (Some err, w2) \<Rightarrow> Inl (err, (b, w2))
              | (None, w2) \<Rightarrow>
                  Inr (b\<lparr>m_data := new_data, m_capacity := new_size, m_size := new_size\<rparr>,
                       if m_data b \<noteq> 0
                       then call_deallocate (m_allocator b) (m_data b)
                              (m_capacity b * sizeof_value_type P) stream w2
                       else w2)))
      else Inr (b\<lparr>m_size := new_size\<rparr>, w))"

fun clear :: "'e state \<Rightarrow> 'e state" where
  "clear (b, w) = (b\<lparr>m_size := 0\<rparr>, w)"

fun release :: "'e platform \<Rightarrow> cudaStream_t \<Rightarrow> 'e state \<Rightarrow> 'e state" where
  "release P stream (b, w) =
     (b\<lparr>m_data := 0, m_capacity := 0, m_size := 0\<rparr>,
      if m_data b \<noteq> 0
      then call_deallocate (m_allocator b) (m_data b) (m_capacity b * sizeof_value_type P) stream w
      else w)"

definition begin_buf :: "'e host_buffer \<Rightarrow> pointer" where
  "begin_buf b = m_data b"

definition end_buf :: "'e platform \<Rightarrow> 'e host_buffer \<Rightarrow> pointer" where
  "end_buf P b = m_data b + m_size b * sizeof_value_type P"

definition getAllocator :: "'e host_buffer \<Rightarrow> 'e hostAllocator" where
  "getAllocator b = m_allocator b"

subsection \<open>A test allocator and two test platforms\<close>

text \<open>
  An allocator with a budget of bytes, for the concrete runs below. Its state is the number
  of bytes in use and the address of the next block; it throws when the request does not
  fit in the budget, and it never hands out the null pointer.
\<close>

definition budget_allocator :: "nat \<Rightarrow> (nat \<times> pointer) hostAllocator" where
  "budget_allocator budget =
     \<lparr>allocate = (\<lambda>bytes stream (used, nxt).
                    if used + unat bytes \<le> budget \<and> nxt \<noteq> 0
                    then (Some nxt, (used + unat bytes, nxt + bytes))
                    else (None, (used, nxt))),
      deallocate = (\<lambda>p bytes stream (used, nxt). (used - unat bytes, nxt))\<rparr>"

text \<open>Elements of four bytes; every CUDA call succeeds.\<close>

definition good_platform :: "(nat \<times> pointer) platform" where
  "good_platform =
     \<lparr>sizeof_value_type = 4,
      cudaStreamSynchronize = (\<lambda>stream e. (cudaSuccess, e)),
      cudaMemcpyAsync = (\<lambda>dst src bytes stream e. (cudaSuccess, e))\<rparr>"

text \<open>The same, but every asynchronous copy is refused with an error status.\<close>

definition failing_copy_platform :: "(nat \<times> pointer) platform" where
  "failing_copy_platform = good_platform\<lparr>cudaMemcpyAsync := (\<lambda>dst src bytes stream e. (cudaErrorCode 1, e))\<rparr>"

definition world0 :: "(nat \<times> pointer) world" where
  "world0 = \<lparr>ext = (0, 4096), host_mem = (\<lambda>a. 0), calls = []\<rparr>"

subsection \<open>The invariants of the data model\<close>

definition invariant :: "'e host_buffer \<Rightarrow> bool" where
  "invariant b =
     (0 \<le> m_size b \<and> m_size b \<le> m_capacity b \<and> (m_data b \<noteq> 0 \<longleftrightarrow> 0 < m_capacity b))"

text \<open>The assumption on the allocator: a call of \<open>allocate\<close> that returns, returns a block.\<close>

definition returns_nonnull :: "'e hostAllocator \<Rightarrow> bool" where
  "returns_nonnull A = (\<forall>bytes stream e p e'. allocate A bytes stream e = (Some p, e') \<longrightarrow> p \<noteq> 0)"

text \<open>A buffer of ten elements at address 4096, as the test allocator would have handed it out.\<close>

definition buffer10 :: "(nat \<times> pointer) host_buffer" where
  "buffer10 = \<lparr>m_allocator = budget_allocator 1000, m_size = 10, m_capacity = 10, m_data = 4096\<rparr>"

text \<open>
  The same buffer after \<open>resize(3)\<close>, in a world where its ten elements hold the values
  0 to 9 (four bytes each, least significant byte first).
\<close>

definition buffer3 :: "(nat \<times> pointer) host_buffer" where
  "buffer3 = buffer10\<lparr>m_size := 3\<rparr>"

definition world10 :: "(nat \<times> pointer) world" where
  "world10 =
     \<lparr>ext = (40, 4136),
      host_mem = (\<lambda>a. if 4096 \<le> a \<and> a < 4136 \<and> (a - 4096) mod 4 = 0
                       then of_nat ((a - 4096) div 4) else 0),
      calls = [Allocate 40 0 (Some 4096), StreamSynchronize 0 cudaSuccess]\<rparr>"

subsection \<open>Sequences of calls on one buffer\<close>

text \<open>
  A list of \<open>resize\<close> calls, each with its size and its stream, made one after the other;
  the first exception ends the sequence.
\<close>

fun resize_all ::
  "'e platform \<Rightarrow> (size_type \<times> cudaStream_t) list \<Rightarrow> 'e state \<Rightarrow> (error \<times> 'e state) + 'e state" where
  "resize_all P [] bw = Inr bw"
| "resize_all P ((n, stream) # reqs) bw =
     (case resize P n stream bw of
        Inl e \<Rightarrow> Inl e
      | Inr bw' \<Rightarrow> resize_all P reqs bw')"

text \<open>
  The calls a user can make on a live buffer that change the buffer or the world. An
  exception of \<open>resize\<close> is caught by the caller, who goes on with the buffer as the
  exception left it.
\<close>

datatype op =
    Resize size_type cudaStream_t
  | Clear
  | Release cudaStream_t
  | Assign size_type "byte list" \<comment> \<open>\<^verbatim>\<open>buf[pos] = v\<close>\<close>

fun exec :: "'e platform \<Rightarrow> op \<Rightarrow> 'e state \<Rightarrow> 'e state" where
  "exec P (Resize n stream) bw =
     (case resize P n stream bw of Inl (err, bw') \<Rightarrow> bw' | Inr bw' \<Rightarrow> bw')"
| "exec P Clear bw = clear bw"
| "exec P (Release stream) bw = release P stream bw"
| "exec P (Assign pos v) bw = subscript_assign P pos v bw"

fun run :: "'e platform \<Rightarrow> op list \<Rightarrow> 'e state \<Rightarrow> 'e state" where
  "run P [] bw = bw"
| "run P (c # cs) bw = run P cs (exec P c bw)"

definition is_release :: "op \<Rightarrow> bool" where
  "is_release c = (case c of Release stream \<Rightarrow> True | _ \<Rightarrow> False)"

text \<open>
  The life of one buffer: construction, the calls, destruction. The result is the world
  at the end. When the constructor throws there is no buffer, so no call and no destructor
  runs.
\<close>

definition lifetime ::
  "'e platform \<Rightarrow> 'e hostAllocator \<Rightarrow> size_type \<Rightarrow> op list \<Rightarrow> 'e world \<Rightarrow> 'e world" where
  "lifetime P A n ops w =
     (case host_buffer_ctor P A n w of
        Inl (err, w') \<Rightarrow> w'
      | Inr bw \<Rightarrow> host_buffer_dtor P (run P ops bw))"

text \<open>
  The bookkeeping of an allocator that checks its clients: it goes through the calls in
  order and keeps the blocks handed out and not yet returned, each with the size in bytes
  it was allocated with. \<open>None\<close> means that some \<open>deallocate\<close> named a block that was not
  held with that size at that moment (a double free, or a wrong size); \<open>Some held\<close> gives
  the blocks still held at the end.
\<close>

fun unreturned ::
  "call list \<Rightarrow> (pointer \<times> size_type) list \<Rightarrow> (pointer \<times> size_type) list option" where
  "unreturned [] held = Some held"
| "unreturned (Allocate bytes stream (Some p) # cs) held = unreturned cs ((p, bytes) # held)"
| "unreturned (Deallocate p bytes stream # cs) held =
     (if (p, bytes) \<in> set held then unreturned cs (remove1 (p, bytes) held) else None)"
| "unreturned (c # cs) held = unreturned cs held"

text \<open>A platform on which no CUDA call reports an error.\<close>

definition cuda_succeeds :: "'e platform \<Rightarrow> bool" where
  "cuda_succeeds P =
     ((\<forall>stream e. fst (cudaStreamSynchronize P stream e) = cudaSuccess)
      \<and> (\<forall>dst src bytes stream e. fst (cudaMemcpyAsync P dst src bytes stream e) = cudaSuccess))"

text \<open>
  The block a buffer holds, as the allocator knows it: the data pointer with the size in
  bytes that the buffer passes to \<open>deallocate\<close>. Two relations between a buffer and the
  calls made so far: the held block is among the blocks not yet returned, and the blocks
  not yet returned are the held block and those of a given list.
\<close>

definition owned :: "'e platform \<Rightarrow> 'e host_buffer \<Rightarrow> (pointer \<times> size_type) list" where
  "owned P b = (if m_data b \<noteq> 0 then [(m_data b, m_capacity b * sizeof_value_type P)] else [])"

definition tracks :: "'e platform \<Rightarrow> 'e state \<Rightarrow> bool" where
  "tracks P bw =
     (\<exists>held. unreturned (calls (snd bw)) [] = Some held \<and> set (owned P (fst bw)) \<subseteq> set held)"

definition balanced :: "'e platform \<Rightarrow> (pointer \<times> size_type) list \<Rightarrow> 'e state \<Rightarrow> bool" where
  "balanced P h bw = (unreturned (calls (snd bw)) [] = Some (owned P (fst bw) @ h))"

section \<open>Properties\<close>

text \<open>
  C7. When \<open>new_size\<close> is at most the capacity, \<open>resize\<close> returns normally, makes no call to
  the allocator (the world, and with it the list of calls, is the one it was given), leaves
  the capacity and the data pointer as they were, and sets the size to \<open>new_size\<close>.
\<close>

theorem resize_within_capacity:
  assumes "new_size \<le> m_capacity b"
  shows "resize P new_size stream (b, w) = Inr (b\<lparr>m_size := new_size\<rparr>, w)"
  using assms by (simp add: leD)

theorem resize_within_capacity_witness:
  "(3 :: size_type) \<le> m_capacity buffer10
   \<and> resize good_platform 3 1 (buffer10, world0) = Inr (buffer10\<lparr>m_size := 3\<rparr>, world0)"
  using resize_within_capacity [of 3 buffer10 good_platform 1 world0]
  by (simp add: buffer10_def)

text \<open>
  C8. \<open>clear\<close> sets the size to 0 and changes nothing else: the capacity, the data pointer
  and the world (so also the list of calls) are as before. A \<open>resize\<close> after it to any size
  up to the capacity returns normally and again leaves capacity, data pointer and world
  alone: it does not reallocate.
\<close>

theorem clear_only_size:
  "clear (b, w) = (b\<lparr>m_size := 0\<rparr>, w)
   \<and> (\<forall>n stream. n \<le> m_capacity b \<longrightarrow>
         resize P n stream (clear (b, w)) = Inr (b\<lparr>m_size := n\<rparr>, w))"
  by (simp add: leD)

theorem clear_only_size_witness:
  "clear (buffer10, world0) = (buffer10\<lparr>m_size := 0\<rparr>, world0)
   \<and> (7 :: size_type) \<le> m_capacity buffer10
   \<and> resize good_platform 7 2 (clear (buffer10, world0)) = Inr (buffer10\<lparr>m_size := 7\<rparr>, world0)"
  using clear_only_size [of buffer10 world0 good_platform]
  by (simp add: buffer10_def)

text \<open>
  C9. When \<open>resize\<close> has to grow and the call of \<open>allocate\<close> throws, \<open>resize\<close> throws with
  the buffer exactly as it was (size, capacity and data pointer), and the only call it has
  made is the failed \<open>allocate\<close>: no \<open>deallocate\<close>, no copy.
\<close>

theorem resize_allocate_fails:
  assumes "m_capacity b < new_size"
    and "allocate (m_allocator b) (new_size * sizeof_value_type P) stream (ext w) = (None, e)"
  shows "resize P new_size stream (b, w) =
           Inl (AllocationError,
                (b, w\<lparr>ext := e,
                      calls := calls w @ [Allocate (new_size * sizeof_value_type P) stream None]\<rparr>))"
  using assms by (simp add: call_allocate_def)

theorem resize_allocate_fails_witness:
  "m_capacity buffer10 < (300 :: size_type)
   \<and> allocate (m_allocator buffer10) (300 * sizeof_value_type good_platform) 1 (ext world0)
       = (None, (0, 4096))
   \<and> resize good_platform 300 1 (buffer10, world0) =
        Inl (AllocationError, (buffer10, world0\<lparr>calls := [Allocate 1200 1 None]\<rparr>))"
  using resize_allocate_fails [of buffer10 300 good_platform 1 world0 "(0, 4096)"]
  by (simp add: buffer10_def budget_allocator_def good_platform_def world0_def)

text \<open>
  C10. \<open>release\<close> is idempotent: a second \<open>release\<close>, on any stream, returns the buffer and
  the world of the first. The world holds the list of calls, so the second \<open>release\<close> calls
  nothing.
\<close>

theorem release_idempotent:
  "release P stream2 (release P stream1 (b, w)) = release P stream1 (b, w)"
  by simp

text \<open>
  C5. On a buffer that satisfies the invariants, \<open>release\<close> calls \<open>deallocate\<close> on the held
  block, with its size in bytes and on the given stream, exactly when the capacity is
  positive, and makes no call otherwise. Afterwards size and capacity are 0 and \<open>data\<close>
  returns the null pointer.
\<close>

theorem release_frees_and_resets:
  assumes "invariant b"
  shows "release P stream (b, w) =
           (b\<lparr>m_data := 0, m_capacity := 0, m_size := 0\<rparr>,
            if 0 < m_capacity b
            then w\<lparr>ext := deallocate (m_allocator b) (m_data b)
                           (m_capacity b * sizeof_value_type P) stream (ext w),
                   calls := calls w @
                     [Deallocate (m_data b) (m_capacity b * sizeof_value_type P) stream]\<rparr>
            else w)
         \<and> size_buf (fst (release P stream (b, w))) = 0
         \<and> m_capacity (fst (release P stream (b, w))) = 0
         \<and> data (fst (release P stream (b, w))) = 0"
  using assms by (simp add: call_deallocate_def invariant_def size_buf_def data_def)

theorem release_frees_and_resets_witness:
  "invariant buffer10
   \<and> release good_platform 5 (buffer10, world0) =
       (buffer10\<lparr>m_data := 0, m_capacity := 0, m_size := 0\<rparr>,
        world0\<lparr>calls := [Deallocate 4096 40 5]\<rparr>)
   \<and> size_buf (fst (release good_platform 5 (buffer10, world0))) = 0
   \<and> data (fst (release good_platform 5 (buffer10, world0))) = 0"
  using release_frees_and_resets [of buffer10 good_platform 5 world0]
  by (simp add: buffer10_def invariant_def budget_allocator_def good_platform_def world0_def
      size_buf_def data_def)

subsection \<open>Construction\<close>

lemma ctor_positive:
  assumes "0 < n"
    and "allocate A (n * sizeof_value_type P) 0 (ext w) = (Some p, e1)"
    and "cudaStreamSynchronize P 0 e1 = (cudaSuccess, e2)"
  shows "host_buffer_ctor P A n w =
           Inr (\<lparr>m_allocator = A, m_size = n, m_capacity = n, m_data = p\<rparr>,
                w\<lparr>ext := e2,
                  calls := calls w @ [Allocate (n * sizeof_value_type P) 0 (Some p),
                                      StreamSynchronize 0 cudaSuccess]\<rparr>)"
  using assms
  by (simp add: host_buffer_ctor_def call_allocate_def call_cudaStreamSynchronize_def
        CUDA_CHECK_def)

lemma ctor_zero:
  "host_buffer_ctor P A 0 w =
     Inr (\<lparr>m_allocator = A, m_size = 0, m_capacity = 0, m_data = 0\<rparr>, w)"
  by (simp add: host_buffer_ctor_def)

lemma returns_nonnullD:
  "returns_nonnull A \<Longrightarrow> allocate A bytes stream e = (Some p, e') \<Longrightarrow> p \<noteq> 0"
  unfolding returns_nonnull_def by blast

text \<open>
  C6. Construction with initial size \<open>n\<close>. When \<open>n\<close> is positive, the allocator returns a
  block and the synchronisation succeeds, the constructor returns a buffer with size and
  capacity \<open>n\<close> whose data pointer is that block; it has called, in this order,
  \<open>allocate\<close> for \<open>n * sizeof(value_type)\<close> bytes on the default stream 0 and
  \<open>cudaStreamSynchronize\<close> on stream 0, and nothing else. \<open>data\<close> is then not null, the
  allocator being one that returns no null block. When \<open>n\<close> is 0 the constructor returns a
  buffer with size and capacity 0 and a null data pointer, in the world it was given: it
  has called nothing.
\<close>

theorem ctor_result:
  "(0 < n \<longrightarrow> allocate A (n * sizeof_value_type P) 0 (ext w) = (Some p, e1) \<longrightarrow>
      cudaStreamSynchronize P 0 e1 = (cudaSuccess, e2) \<longrightarrow>
        host_buffer_ctor P A n w =
          Inr (\<lparr>m_allocator = A, m_size = n, m_capacity = n, m_data = p\<rparr>,
               w\<lparr>ext := e2,
                 calls := calls w @ [Allocate (n * sizeof_value_type P) 0 (Some p),
                                     StreamSynchronize 0 cudaSuccess]\<rparr>)
        \<and> (returns_nonnull A \<longrightarrow>
             data \<lparr>m_allocator = A, m_size = n, m_capacity = n, m_data = p\<rparr> \<noteq> 0))
   \<and> (n = 0 \<longrightarrow>
        host_buffer_ctor P A n w =
          Inr (\<lparr>m_allocator = A, m_size = 0, m_capacity = 0, m_data = 0\<rparr>, w)
        \<and> data \<lparr>m_allocator = A, m_size = 0, m_capacity = 0, m_data = 0\<rparr> = 0)"
  using ctor_positive [of n A P w p e1 e2] ctor_zero [of P A w]
    returns_nonnullD [of A "n * sizeof_value_type P" 0 "ext w" p e1]
  by (simp add: data_def)

lemma budget_allocator_nonnull: "returns_nonnull (budget_allocator budget)"
  by (auto simp add: returns_nonnull_def budget_allocator_def split: if_splits)

theorem ctor_result_witness:
  "(0 :: size_type) < 100
   \<and> allocate (budget_allocator 1000) (100 * sizeof_value_type good_platform) 0 (ext world0)
       = (Some 4096, (400, 4496))
   \<and> cudaStreamSynchronize good_platform 0 (400, 4496) = (cudaSuccess, (400, 4496))
   \<and> returns_nonnull (budget_allocator 1000)
   \<and> host_buffer_ctor good_platform (budget_allocator 1000) 100 world0 =
        Inr (\<lparr>m_allocator = budget_allocator 1000, m_size = 100, m_capacity = 100, m_data = 4096\<rparr>,
             world0\<lparr>ext := (400, 4496),
                    calls := [Allocate 400 0 (Some 4096), StreamSynchronize 0 cudaSuccess]\<rparr>)
   \<and> host_buffer_ctor good_platform (budget_allocator 1000) 0 world0 =
        Inr (\<lparr>m_allocator = budget_allocator 1000, m_size = 0, m_capacity = 0, m_data = 0\<rparr>, world0)"
  using ctor_result [of 100 "budget_allocator 1000" good_platform world0 4096 "(400, 4496)" "(400, 4496)"]
    ctor_result [of 0 "budget_allocator 1000" good_platform world0 0 "(0, 4096)" "(0, 4096)"]
    budget_allocator_nonnull [of 1000]
  by (simp add: budget_allocator_def good_platform_def world0_def)

subsection \<open>Growing\<close>

lemma copy_bytes_inside: "off < n \<Longrightarrow> copy_bytes dst src n mem (dst + off) = mem (src + off)"
  by (simp add: copy_bytes_def)

lemma element_offset_in_range:
  fixes pos sz n :: size_type
  assumes "pos < n" and "unat n * unat sz < 2 ^ 64" and "k < unat sz"
  shows "unat pos * unat sz + k < unat (n * sz)"
proof -
  have eq: "unat (n * sz) = unat n * unat sz"
    using assms(2) by (simp add: unat_word_ariths)
  have "unat pos < unat n"
    using assms(1) by (simp add: word_less_nat_alt)
  then have "Suc (unat pos) \<le> unat n" by simp
  then have "Suc (unat pos) * unat sz \<le> unat n * unat sz"
    by (rule mult_le_mono1)
  moreover have "unat pos * unat sz + k < Suc (unat pos) * unat sz"
    using assms(3) by simp
  ultimately show ?thesis using eq by linarith
qed

text \<open>
  C1. When the capacity is less than \<open>new_size\<close>, the allocator returns a block and the
  copy (made only when the old size is positive) is accepted, \<open>resize\<close> returns normally
  with the new block as data pointer and capacity and size \<open>new_size\<close>. The calls it makes
  are, in this order: \<open>allocate\<close> for exactly \<open>new_size * sizeof(value_type)\<close> bytes on
  \<open>stream\<close>; when the old size is positive, a copy of \<open>size * sizeof(value_type)\<close> bytes
  from the old block to the new one on \<open>stream\<close>; when the old data pointer is not null,
  \<open>deallocate\<close> of the old block with its own size in bytes on \<open>stream\<close>. Every element
  below the old size then reads through the resized buffer as it read before, provided the
  old elements fit in the address space (\<open>size * sizeof(value_type)\<close> does not wrap).
\<close>

theorem resize_grow:
  assumes "m_capacity b < new_size"
    and "allocate (m_allocator b) (new_size * sizeof_value_type P) stream (ext w) = (Some new_data, e1)"
    and "0 < m_size b \<longrightarrow>
           fst (cudaMemcpyAsync P new_data (m_data b) (m_size b * sizeof_value_type P) stream e1)
             = cudaSuccess"
  shows "\<exists>w'. resize P new_size stream (b, w) =
                 Inr (b\<lparr>m_data := new_data, m_capacity := new_size, m_size := new_size\<rparr>, w')
             \<and> calls w' = calls w
                  @ [Allocate (new_size * sizeof_value_type P) stream (Some new_data)]
                  @ (if 0 < m_size b
                     then [MemcpyAsync new_data (m_data b) (m_size b * sizeof_value_type P) stream
                             cudaSuccess]
                     else [])
                  @ (if m_data b \<noteq> 0
                     then [Deallocate (m_data b) (m_capacity b * sizeof_value_type P) stream]
                     else [])
             \<and> (unat (m_size b) * unat (sizeof_value_type P) < 2 ^ 64 \<longrightarrow>
                  (\<forall>pos. pos < m_size b \<longrightarrow>
                     subscript P pos
                       (b\<lparr>m_data := new_data, m_capacity := new_size, m_size := new_size\<rparr>, w')
                     = subscript P pos (b, w)))"
proof (cases "0 < m_size b")
  case False
  then have z: "m_size b = 0" by (simp add: word_gt_0)
  show ?thesis
    using assms(1,2) z
    by (simp add: call_allocate_def call_deallocate_def)
next
  case True
  obtain st e2 where m: "cudaMemcpyAsync P new_data (m_data b) (m_size b * sizeof_value_type P) stream e1 = (st, e2)"
    by (cases "cudaMemcpyAsync P new_data (m_data b) (m_size b * sizeof_value_type P) stream e1")
  with assms(3) True have st: "st = cudaSuccess" by simp
  show ?thesis
    using assms(1,2) True m st
    by (auto simp add: call_allocate_def call_deallocate_def call_cudaMemcpyAsync_def CUDA_CHECK_def
          element_address_def add.assoc copy_bytes_inside element_offset_in_range)
qed

theorem resize_grow_witness:
  "m_capacity buffer3 < (20 :: size_type)
   \<and> allocate (m_allocator buffer3) (20 * sizeof_value_type good_platform) 7 (ext world10)
       = (Some 4136, (120, 4216))
   \<and> fst (cudaMemcpyAsync good_platform 4136 (m_data buffer3)
            (m_size buffer3 * sizeof_value_type good_platform) 7 (120, 4216)) = cudaSuccess
   \<and> unat (m_size buffer3) * unat (sizeof_value_type good_platform) < 2 ^ 64
   \<and> (\<exists>w'. resize good_platform 20 7 (buffer3, world10) =
               Inr (buffer3\<lparr>m_data := 4136, m_capacity := 20, m_size := 20\<rparr>, w')
           \<and> calls w' = [Allocate 40 0 (Some 4096), StreamSynchronize 0 cudaSuccess,
                          Allocate 80 7 (Some 4136), MemcpyAsync 4136 4096 12 7 cudaSuccess,
                          Deallocate 4096 40 7]
           \<and> subscript good_platform 0 (buffer3\<lparr>m_data := 4136, m_capacity := 20, m_size := 20\<rparr>, w')
               = [0, 0, 0, 0]
           \<and> subscript good_platform 1 (buffer3\<lparr>m_data := 4136, m_capacity := 20, m_size := 20\<rparr>, w')
               = [1, 0, 0, 0]
           \<and> subscript good_platform 2 (buffer3\<lparr>m_data := 4136, m_capacity := 20, m_size := 20\<rparr>, w')
               = [2, 0, 0, 0])"
proof -
  let ?b' = "buffer3\<lparr>m_data := 4136, m_capacity := 20, m_size := 20\<rparr>"
  have h1: "m_capacity buffer3 < (20 :: size_type)"
    by (simp add: buffer3_def buffer10_def)
  have h2: "allocate (m_allocator buffer3) (20 * sizeof_value_type good_platform) 7 (ext world10)
              = (Some 4136, (120, 4216))"
    by (simp add: buffer3_def buffer10_def budget_allocator_def good_platform_def world10_def)
  have h3: "fst (cudaMemcpyAsync good_platform 4136 (m_data buffer3)
                   (m_size buffer3 * sizeof_value_type good_platform) 7 (120, 4216)) = cudaSuccess"
    by (simp add: good_platform_def)
  have h4: "unat (m_size buffer3) * unat (sizeof_value_type good_platform) < 2 ^ 64"
    by (simp add: buffer3_def buffer10_def good_platform_def)
  have old0: "subscript good_platform 0 (buffer3, world10) = [0, 0, 0, 0]"
    by (simp add: good_platform_def buffer3_def buffer10_def world10_def element_address_def upt_rec)
  have old1: "subscript good_platform 1 (buffer3, world10) = [1, 0, 0, 0]"
    by (simp add: good_platform_def buffer3_def buffer10_def world10_def element_address_def upt_rec)
  have old2: "subscript good_platform 2 (buffer3, world10) = [2, 0, 0, 0]"
    by (simp add: good_platform_def buffer3_def buffer10_def world10_def element_address_def upt_rec)
  from h3 have h3': "0 < m_size buffer3 \<longrightarrow>
      fst (cudaMemcpyAsync good_platform 4136 (m_data buffer3)
             (m_size buffer3 * sizeof_value_type good_platform) 7 (120, 4216)) = cudaSuccess"
    by (rule impI)
  from resize_grow [OF h1 h2 h3']
  obtain w' where r: "resize good_platform 20 7 (buffer3, world10) = Inr (?b', w')"
    and c: "calls w' = calls world10
          @ [Allocate (20 * sizeof_value_type good_platform) 7 (Some 4136)]
          @ (if 0 < m_size buffer3
             then [MemcpyAsync 4136 (m_data buffer3)
                     (m_size buffer3 * sizeof_value_type good_platform) 7 cudaSuccess]
             else [])
          @ (if m_data buffer3 \<noteq> 0
             then [Deallocate (m_data buffer3) (m_capacity buffer3 * sizeof_value_type good_platform) 7]
             else [])"
    and p: "unat (m_size buffer3) * unat (sizeof_value_type good_platform) < 2 ^ 64 \<longrightarrow>
            (\<forall>pos. pos < m_size buffer3 \<longrightarrow>
               subscript good_platform pos (?b', w') = subscript good_platform pos (buffer3, world10))"
    by blast
  from p h4 have p': "\<And>pos. pos < m_size buffer3 \<Longrightarrow>
       subscript good_platform pos (?b', w') = subscript good_platform pos (buffer3, world10)"
    by blast
  have lt0: "(0 :: size_type) < m_size buffer3" by (simp add: buffer3_def)
  have lt1: "(1 :: size_type) < m_size buffer3" by (simp add: buffer3_def)
  have lt2: "(2 :: size_type) < m_size buffer3" by (simp add: buffer3_def)
  have e0: "subscript good_platform 0 (?b', w') = [0, 0, 0, 0]"
    by (rule trans [OF p' [OF lt0] old0])
  have e1: "subscript good_platform 1 (?b', w') = [1, 0, 0, 0]"
    by (rule trans [OF p' [OF lt1] old1])
  have e2: "subscript good_platform 2 (?b', w') = [2, 0, 0, 0]"
    by (rule trans [OF p' [OF lt2] old2])
  have c': "calls w' = [Allocate 40 0 (Some 4096), StreamSynchronize 0 cudaSuccess,
                          Allocate 80 7 (Some 4136), MemcpyAsync 4136 4096 12 7 cudaSuccess,
                          Deallocate 4096 40 7]"
    using c by (simp add: buffer3_def buffer10_def good_platform_def world10_def)
  show ?thesis
    by (intro conjI exI [of _ w']) (fact h1 h2 h3 h4 r c' e0 e1 e2)+
qed

subsection \<open>The invariants\<close>

lemma call_allocate_nonnull:
  "returns_nonnull A \<Longrightarrow> call_allocate A bytes stream w = (Some p, w1) \<Longrightarrow> p \<noteq> 0"
  by (auto simp add: call_allocate_def split: prod.splits dest: returns_nonnullD)

lemma ctor_invariant:
  assumes "returns_nonnull A" and "host_buffer_ctor P A n w = Inr (b, w')"
  shows "invariant b \<and> m_allocator b = A"
proof (cases "0 < n")
  case False
  then have "n = 0" by (simp add: word_gt_0)
  with assms(2) show ?thesis
    by (auto simp add: host_buffer_ctor_def invariant_def)
next
  case True
  with assms show ?thesis
    by (auto simp add: host_buffer_ctor_def invariant_def Let_def
          split: prod.splits option.splits dest: call_allocate_nonnull)
qed

lemma resize_Inr:
  assumes "resize P new_size stream (b, w) = Inr (b', w')"
  shows "m_size b' = new_size \<and> new_size \<le> m_capacity b' \<and> m_capacity b \<le> m_capacity b'
         \<and> m_allocator b' = m_allocator b"
  using assms
  by (auto simp add: not_less split: if_splits prod.splits option.splits)

lemma resize_Inl:
  assumes "resize P new_size stream (b, w) = Inl (err, (b', w'))"
  shows "b' = b"
  using assms
  by (auto split: if_splits prod.splits option.splits)

lemma resize_invariant:
  assumes "returns_nonnull (m_allocator b)" and "invariant b"
    and "resize P new_size stream (b, w) = Inr (b', w')"
  shows "invariant b'"
proof (cases "m_capacity b < new_size")
  case False
  with assms(2,3) show ?thesis
    by (auto simp add: invariant_def not_less)
next
  case True
  then have pos: "0 < new_size"
    by (metis word_gt_0 word_not_simps(1))
  from True assms(3) obtain w1 where
    "call_allocate (m_allocator b) (new_size * sizeof_value_type P) stream w = (Some (m_data b'), w1)"
    and "m_capacity b' = new_size" and "m_size b' = new_size"
    by (auto split: prod.splits option.splits)
  with assms(1) pos show ?thesis
    by (auto simp add: invariant_def dest: call_allocate_nonnull)
qed

lemma exec_invariant:
  assumes "returns_nonnull (m_allocator b)" and "invariant b" and "exec P c (b, w) = (b', w')"
  shows "invariant b' \<and> m_allocator b' = m_allocator b"
proof (cases c)
  case (Resize n stream)
  show ?thesis
  proof (cases "resize P n stream (b, w)")
    case (Inl x)
    then obtain err b2 w2 where l: "resize P n stream (b, w) = Inl (err, (b2, w2))"
      by (cases x) auto
    from assms(3) Resize l have "b' = b2"
      by (simp del: resize.simps)
    with resize_Inl [OF l] assms(2) show ?thesis by simp
  next
    case (Inr y)
    with assms(3) Resize have r: "resize P n stream (b, w) = Inr (b', w')"
      by (simp del: resize.simps)
    show ?thesis
      using resize_invariant [OF assms(1,2) r] resize_Inr [OF r] by simp
  qed
next
  case Clear
  with assms show ?thesis by (auto simp add: invariant_def)
next
  case (Release stream)
  with assms show ?thesis by (auto simp add: invariant_def)
next
  case (Assign pos v)
  with assms show ?thesis by auto
qed

lemma run_invariant:
  assumes "returns_nonnull (m_allocator b)" and "invariant b"
  shows "invariant (fst (run P cs (b, w))) \<and> m_allocator (fst (run P cs (b, w))) = m_allocator b"
  using assms
proof (induction cs arbitrary: b w)
  case Nil
  then show ?case by simp
next
  case (Cons c cs)
  obtain b' w' where e: "exec P c (b, w) = (b', w')" by (cases "exec P c (b, w)")
  from exec_invariant [OF Cons.prems e] have "invariant b'" and a: "m_allocator b' = m_allocator b"
    by simp_all
  with Cons.IH [of b' w'] Cons.prems e show ?case by simp
qed

text \<open>
  C3. Every operation keeps the invariants \<open>0 \<le> size \<le> capacity\<close> and
  \<open>data \<noteq> null \<longleftrightarrow> capacity > 0\<close>, for an allocator that returns no null block: the buffer
  that the constructor returns satisfies them; \<open>resize\<close> keeps them when it returns and
  when it throws; so do \<open>clear\<close>, \<open>release\<close> (which establishes them from any buffer),
  a store through \<open>operator[]\<close>, and any sequence of these calls. The queries
  (\<open>data\<close>, \<open>size\<close>, reading \<open>operator[]\<close>, \<open>begin\<close>, \<open>end\<close>, \<open>getAllocator\<close>) are functions of
  the buffer that return no buffer, so they cannot change it.
\<close>

theorem invariant_preserved:
  "(returns_nonnull A \<longrightarrow> host_buffer_ctor P A n w = Inr (b0, w0) \<longrightarrow> invariant b0)
   \<and> (returns_nonnull (m_allocator b) \<longrightarrow> invariant b \<longrightarrow>
        resize P new_size stream (b, w) = Inr (b1, w1) \<longrightarrow> invariant b1)
   \<and> (invariant b \<longrightarrow> resize P new_size stream (b, w) = Inl (err, (b2, w2)) \<longrightarrow> invariant b2)
   \<and> (invariant b \<longrightarrow> invariant (fst (clear (b, w))))
   \<and> invariant (fst (release P stream (b, w)))
   \<and> (invariant b \<longrightarrow> invariant (fst (subscript_assign P pos v (b, w))))
   \<and> (returns_nonnull (m_allocator b) \<longrightarrow> invariant b \<longrightarrow> invariant (fst (run P cs (b, w))))"
proof (intro conjI impI)
  show "invariant b0" if "returns_nonnull A" "host_buffer_ctor P A n w = Inr (b0, w0)"
    using ctor_invariant [OF that] by simp
  show "invariant b1"
    if "returns_nonnull (m_allocator b)" "invariant b" "resize P new_size stream (b, w) = Inr (b1, w1)"
    using resize_invariant [OF that] .
  show "invariant b2" if "invariant b" "resize P new_size stream (b, w) = Inl (err, (b2, w2))"
    using resize_Inl [OF that(2)] that(1) by simp
  show "invariant (fst (clear (b, w)))" if "invariant b"
    using that by (simp add: invariant_def)
  show "invariant (fst (release P stream (b, w)))"
    by (simp add: invariant_def)
  show "invariant (fst (subscript_assign P pos v (b, w)))" if "invariant b"
    using that by simp
  show "invariant (fst (run P cs (b, w)))" if "returns_nonnull (m_allocator b)" "invariant b"
    using run_invariant [OF that] by simp
qed

theorem invariant_preserved_witness:
  "returns_nonnull (budget_allocator 1000)
   \<and> (\<exists>w0. host_buffer_ctor good_platform (budget_allocator 1000) 10 world0 = Inr (buffer10, w0))
   \<and> invariant buffer10
   \<and> (\<exists>w1. resize good_platform 20 7 (buffer10, world10) =
             Inr (buffer10\<lparr>m_data := 4136, m_capacity := 20, m_size := 20\<rparr>, w1))
   \<and> invariant (buffer10\<lparr>m_data := 4136, m_capacity := 20, m_size := 20\<rparr>)
   \<and> (\<exists>w2. resize failing_copy_platform 20 7 (buffer10, world10) =
             Inl (CudaError (cudaErrorCode 1), (buffer10, w2)))
   \<and> invariant (fst (clear (buffer10, world10)))
   \<and> invariant (fst (release good_platform 7 (buffer10, world10)))
   \<and> invariant (fst (subscript_assign good_platform 2 [9, 0, 0, 0] (buffer10, world10)))
   \<and> invariant (fst (run good_platform [Resize 20 7, Clear, Resize 300 1, Release 2, Resize 5 3]
                        (buffer10, world10)))"
proof -
  let ?A = "budget_allocator 1000"
  let ?b1 = "buffer10\<lparr>m_data := 4136, m_capacity := 20, m_size := 20\<rparr>"
  let ?cs = "[Resize 20 7, Clear, Resize 300 1, Release 2, Resize 5 3]"
  have nn: "returns_nonnull ?A" by (rule budget_allocator_nonnull)
  have nn': "returns_nonnull (m_allocator buffer10)"
    using nn by (simp add: buffer10_def)
  have "\<exists>w0. host_buffer_ctor good_platform ?A 10 world0 = Inr (buffer10, w0)"
    by (simp add: host_buffer_ctor_def buffer10_def world0_def good_platform_def
          budget_allocator_def call_allocate_def call_cudaStreamSynchronize_def CUDA_CHECK_def)
  then obtain w0 where r0: "host_buffer_ctor good_platform ?A 10 world0 = Inr (buffer10, w0)" ..
  have "\<exists>w1. resize good_platform 20 7 (buffer10, world10) = Inr (?b1, w1)"
    by (simp add: buffer10_def world10_def good_platform_def budget_allocator_def
          call_allocate_def call_deallocate_def call_cudaMemcpyAsync_def CUDA_CHECK_def)
  then obtain w1 where r1: "resize good_platform 20 7 (buffer10, world10) = Inr (?b1, w1)" ..
  have "\<exists>w2. resize failing_copy_platform 20 7 (buffer10, world10) =
             Inl (CudaError (cudaErrorCode 1), (buffer10, w2))"
    by (simp add: buffer10_def world10_def good_platform_def failing_copy_platform_def
          budget_allocator_def call_allocate_def call_cudaMemcpyAsync_def CUDA_CHECK_def)
  then obtain w2 where r2: "resize failing_copy_platform 20 7 (buffer10, world10) =
             Inl (CudaError (cudaErrorCode 1), (buffer10, w2))" ..
  from invariant_preserved [where A = ?A and P = good_platform and n = 10 and w = world0
      and ?b0.0 = buffer10 and ?w0.0 = w0] nn r0
  have i0: "invariant buffer10"
    by (simp del: resize.simps run.simps clear.simps release.simps subscript_assign.simps)
  from invariant_preserved [where P = good_platform and b = buffer10 and w = world10
      and new_size = 20 and stream = 7 and ?b1.0 = ?b1 and ?w1.0 = w1 and pos = 2
      and v = "[9, 0, 0, 0]" and cs = ?cs] nn' i0 r1
  have i1: "invariant ?b1"
    and i2: "invariant (fst (clear (buffer10, world10)))"
    and i3: "invariant (fst (release good_platform 7 (buffer10, world10)))"
    and i4: "invariant (fst (subscript_assign good_platform 2 [9, 0, 0, 0] (buffer10, world10)))"
    and i5: "invariant (fst (run good_platform ?cs (buffer10, world10)))"
    by (simp_all del: resize.simps run.simps clear.simps release.simps subscript_assign.simps)
  show ?thesis
    by (intro conjI exI [of _ w0] exI [of _ w1] exI [of _ w2]) (fact nn r0 r1 r2 i0 i1 i2 i3 i4 i5)+
qed

subsection \<open>Sequences of \<open>resize\<close>\<close>

lemma resize_all_Inr:
  assumes "resize_all P reqs (b, w) = Inr (b', w')"
  shows "(\<forall>r\<in>set reqs. fst r \<le> m_capacity b') \<and> m_capacity b \<le> m_capacity b'
         \<and> (reqs \<noteq> [] \<longrightarrow> m_size b' = fst (last reqs))"
  using assms
proof (induction reqs arbitrary: b w)
  case Nil
  then show ?case by simp
next
  case (Cons r reqs)
  obtain n stream where r: "r = (n, stream)" by (cases r)
  from Cons.prems r obtain b1 w1 where
    s: "resize P n stream (b, w) = Inr (b1, w1)" and t: "resize_all P reqs (b1, w1) = Inr (b', w')"
    by (auto simp del: resize.simps split: sum.splits)
  from resize_Inr [OF s] have a: "m_size b1 = n" "n \<le> m_capacity b1" "m_capacity b \<le> m_capacity b1"
    by simp_all
  from Cons.IH [OF t] have ih: "\<forall>r\<in>set reqs. fst r \<le> m_capacity b'" "m_capacity b1 \<le> m_capacity b'"
    "reqs \<noteq> [] \<longrightarrow> m_size b' = fst (last reqs)"
    by simp_all
  have "m_size b' = fst (last (r # reqs))"
  proof (cases "reqs = []")
    case True
    with t a(1) r show ?thesis by simp
  next
    case False
    with ih(3) show ?thesis by simp
  qed
  with a ih r show ?case by auto
qed

lemma exec_capacity:
  assumes "\<not> is_release c" and "exec P c (b, w) = (b', w')"
  shows "m_capacity b \<le> m_capacity b'"
proof (cases c)
  case (Resize n stream)
  show ?thesis
  proof (cases "resize P n stream (b, w)")
    case (Inl x)
    then obtain err b2 w2 where l: "resize P n stream (b, w) = Inl (err, (b2, w2))"
      by (cases x) auto
    from assms(2) Resize l have "b' = b2"
      by (simp del: resize.simps)
    with resize_Inl [OF l] show ?thesis by simp
  next
    case (Inr y)
    with assms(2) Resize have r: "resize P n stream (b, w) = Inr (b', w')"
      by (simp del: resize.simps)
    from resize_Inr [OF r] show ?thesis by simp
  qed
next
  case Clear
  with assms show ?thesis by auto
next
  case (Release stream)
  with assms show ?thesis by (simp add: is_release_def)
next
  case (Assign pos v)
  with assms show ?thesis by auto
qed

lemma run_capacity:
  assumes "\<forall>c\<in>set cs. \<not> is_release c"
  shows "m_capacity b \<le> m_capacity (fst (run P cs (b, w)))"
  using assms
proof (induction cs arbitrary: b w)
  case Nil
  then show ?case by simp
next
  case (Cons c cs)
  obtain b' w' where e: "exec P c (b, w) = (b', w')" by (cases "exec P c (b, w)")
  from Cons.prems have "\<not> is_release c" and rest: "\<forall>c\<in>set cs. \<not> is_release c" by simp_all
  from exec_capacity [OF this(1) e] have "m_capacity b \<le> m_capacity b'" .
  moreover from Cons.IH [OF rest, of b' w'] have "m_capacity b' \<le> m_capacity (fst (run P cs (b', w')))" .
  ultimately show ?case using e by simp
qed

text \<open>
  C2. A \<open>resize\<close> that returns leaves the size equal to \<open>new_size\<close> and the capacity at
  least \<open>new_size\<close> and at least what it was; a \<open>resize\<close> that throws leaves the capacity
  as it was. After a sequence of \<open>resize\<close> calls that all return, the size is the last
  requested size and the capacity is at least the greatest requested size and at least
  the initial capacity. Over any sequence of calls without \<open>release\<close>, whether or not the
  \<open>resize\<close> calls in it throw, the capacity does not decrease.
\<close>

theorem resize_sequence:
  "(resize P new_size stream (b, w) = Inr (b1, w1) \<longrightarrow>
      size_buf b1 = new_size \<and> new_size \<le> m_capacity b1 \<and> m_capacity b \<le> m_capacity b1)
   \<and> (resize P new_size stream (b, w) = Inl (err, (b2, w2)) \<longrightarrow> m_capacity b2 = m_capacity b)
   \<and> (reqs \<noteq> [] \<longrightarrow> resize_all P reqs (b, w) = Inr (b3, w3) \<longrightarrow>
        size_buf b3 = fst (last reqs) \<and> Max (fst ` set reqs) \<le> m_capacity b3
        \<and> m_capacity b \<le> m_capacity b3)
   \<and> ((\<forall>c\<in>set cs. \<not> is_release c) \<longrightarrow> m_capacity b \<le> m_capacity (fst (run P cs (b, w))))"
proof (intro conjI impI)
  assume r: "resize P new_size stream (b, w) = Inr (b1, w1)"
  from resize_Inr [OF r] show "size_buf b1 = new_size" "new_size \<le> m_capacity b1"
    "m_capacity b \<le> m_capacity b1"
    by (simp_all add: size_buf_def)
next
  assume "resize P new_size stream (b, w) = Inl (err, (b2, w2))"
  from resize_Inl [OF this] show "m_capacity b2 = m_capacity b" by simp
next
  assume ne: "reqs \<noteq> []" and r: "resize_all P reqs (b, w) = Inr (b3, w3)"
  from resize_all_Inr [OF r] ne show "size_buf b3 = fst (last reqs)" "m_capacity b \<le> m_capacity b3"
    by (simp_all add: size_buf_def)
  from resize_all_Inr [OF r] ne show "Max (fst ` set reqs) \<le> m_capacity b3"
    by simp
next
  assume "\<forall>c\<in>set cs. \<not> is_release c"
  from run_capacity [OF this] show "m_capacity b \<le> m_capacity (fst (run P cs (b, w)))" .
qed

theorem resize_sequence_witness:
  "(\<exists>w1. resize good_platform 20 7 (buffer3, world10) =
            Inr (buffer3\<lparr>m_data := 4136, m_capacity := 20, m_size := 20\<rparr>, w1))
   \<and> size_buf (buffer3\<lparr>m_data := 4136, m_capacity := 20, m_size := 20\<rparr>) = 20
   \<and> m_capacity buffer3 \<le> m_capacity (buffer3\<lparr>m_data := 4136, m_capacity := 20, m_size := 20\<rparr>)
   \<and> (\<exists>w2. resize good_platform 300 7 (buffer3, world10) = Inl (AllocationError, (buffer3, w2)))
   \<and> (\<exists>w3. resize_all good_platform [(3, 1), (20, 7), (5, 2)] (buffer10, world10) =
            Inr (buffer10\<lparr>m_data := 4136, m_capacity := 20, m_size := 5\<rparr>, w3))
   \<and> size_buf (buffer10\<lparr>m_data := 4136, m_capacity := 20, m_size := 5\<rparr>) = 5
   \<and> Max (fst ` set [(3 :: size_type, 1 :: nat), (20, 7), (5, 2)])
       \<le> m_capacity (buffer10\<lparr>m_data := 4136, m_capacity := 20, m_size := 5\<rparr>)
   \<and> \<not> is_release (Resize 20 7) \<and> \<not> is_release Clear \<and> \<not> is_release (Resize 300 1)
   \<and> m_capacity buffer10
       \<le> m_capacity (fst (run good_platform [Resize 20 7, Clear, Resize 300 1] (buffer10, world10)))"
proof -
  let ?b1 = "buffer3\<lparr>m_data := 4136, m_capacity := 20, m_size := 20\<rparr>"
  let ?b3 = "buffer10\<lparr>m_data := 4136, m_capacity := 20, m_size := 5\<rparr>"
  let ?reqs = "[(3 :: size_type, 1 :: nat), (20, 7), (5, 2)]"
  let ?cs = "[Resize 20 7, Clear, Resize 300 1]"
  have "\<exists>w1. resize good_platform 20 7 (buffer3, world10) = Inr (?b1, w1)"
    by (simp add: buffer10_def buffer3_def world10_def good_platform_def budget_allocator_def
          call_allocate_def call_deallocate_def call_cudaMemcpyAsync_def CUDA_CHECK_def)
  then obtain w1 where r1: "resize good_platform 20 7 (buffer3, world10) = Inr (?b1, w1)" ..
  have "\<exists>w2. resize good_platform 300 7 (buffer3, world10) = Inl (AllocationError, (buffer3, w2))"
    by (simp add: buffer10_def buffer3_def world10_def good_platform_def budget_allocator_def
          call_allocate_def call_deallocate_def call_cudaMemcpyAsync_def CUDA_CHECK_def)
  then obtain w2 where r2: "resize good_platform 300 7 (buffer3, world10) = Inl (AllocationError, (buffer3, w2))" ..
  have "\<exists>w3. resize_all good_platform ?reqs (buffer10, world10) = Inr (?b3, w3)"
    by (simp add: buffer10_def buffer3_def world10_def good_platform_def budget_allocator_def
          call_allocate_def call_deallocate_def call_cudaMemcpyAsync_def CUDA_CHECK_def)
  then obtain w3 where r3: "resize_all good_platform ?reqs (buffer10, world10) = Inr (?b3, w3)" ..
  have ne: "?reqs \<noteq> []" by simp
  have nr: "\<not> is_release (Resize 20 7)" "\<not> is_release Clear" "\<not> is_release (Resize 300 1)"
    by (simp_all add: is_release_def)
  then have nr': "\<forall>c\<in>set ?cs. \<not> is_release c" by simp
  from resize_sequence [of good_platform 20 7 buffer3 world10 ?b1 w1 AllocationError buffer3 w2
      ?reqs ?b3 w3 ?cs] r1
  have a: "size_buf ?b1 = 20" "m_capacity buffer3 \<le> m_capacity ?b1"
    by simp_all
  from resize_sequence [of good_platform 20 7 buffer10 world10 ?b1 w1 AllocationError buffer3 w2
      ?reqs ?b3 w3 ?cs] r3 ne nr'
  have b: "size_buf ?b3 = 5" "Max (fst ` set ?reqs) \<le> m_capacity ?b3"
    "m_capacity buffer10 \<le> m_capacity (fst (run good_platform ?cs (buffer10, world10)))"
    by (simp_all del: resize.simps resize_all.simps run.simps)
  show ?thesis
    by (intro conjI exI [of _ w1] exI [of _ w2] exI [of _ w3]) (fact r1 r2 r3 a b nr)+
qed

subsection \<open>Blocks obtained and blocks returned\<close>

lemma unreturned_append:
  "unreturned (cs @ cs') held =
     (case unreturned cs held of None \<Rightarrow> None | Some h \<Rightarrow> unreturned cs' h)"
  by (induction cs held rule: unreturned.induct) auto

text \<open>The four ways through \<open>resize\<close>, each with the calls it makes.\<close>

lemma resize_calls:
  "(\<not> m_capacity b < n \<and> resize P n stream (b, w) = Inr (b\<lparr>m_size := n\<rparr>, w))
   \<or> (\<exists>w'. resize P n stream (b, w) = Inl (AllocationError, (b, w'))
          \<and> calls w' = calls w @ [Allocate (n * sizeof_value_type P) stream None])
   \<or> (\<exists>w' p e st. resize P n stream (b, w) = Inl (CudaError st, (b, w'))
          \<and> st = fst (cudaMemcpyAsync P p (m_data b) (m_size b * sizeof_value_type P) stream e)
          \<and> st \<noteq> cudaSuccess
          \<and> calls w' = calls w @ [Allocate (n * sizeof_value_type P) stream (Some p),
                 MemcpyAsync p (m_data b) (m_size b * sizeof_value_type P) stream st])
   \<or> (\<exists>w' p e e'. resize P n stream (b, w) =
            Inr (b\<lparr>m_data := p, m_capacity := n, m_size := n\<rparr>, w')
          \<and> allocate (m_allocator b) (n * sizeof_value_type P) stream e = (Some p, e')
          \<and> calls w' = calls w @ [Allocate (n * sizeof_value_type P) stream (Some p)]
               @ (if 0 < m_size b
                  then [MemcpyAsync p (m_data b) (m_size b * sizeof_value_type P) stream cudaSuccess]
                  else [])
               @ (if m_data b \<noteq> 0
                  then [Deallocate (m_data b) (m_capacity b * sizeof_value_type P) stream]
                  else []))"
proof (cases "m_capacity b < n")
  case False
  then show ?thesis by simp
next
  case grow: True
  obtain r e1 where a: "allocate (m_allocator b) (n * sizeof_value_type P) stream (ext w) = (r, e1)"
    by (cases "allocate (m_allocator b) (n * sizeof_value_type P) stream (ext w)")
  show ?thesis
  proof (cases r)
    case None
    with grow a have "resize P n stream (b, w) =
        Inl (AllocationError, (b, w\<lparr>ext := e1, calls := calls w @ [Allocate (n * sizeof_value_type P) stream None]\<rparr>))"
      by (simp add: call_allocate_def)
    then show ?thesis by simp
  next
    case (Some p)
    show ?thesis
    proof (cases "0 < m_size b")
      case False
      with grow a Some have "\<exists>w'. resize P n stream (b, w) =
            Inr (b\<lparr>m_data := p, m_capacity := n, m_size := n\<rparr>, w')
          \<and> calls w' = calls w @ [Allocate (n * sizeof_value_type P) stream (Some p)]
               @ (if m_data b \<noteq> 0
                  then [Deallocate (m_data b) (m_capacity b * sizeof_value_type P) stream]
                  else [])"
        by (simp add: call_allocate_def call_deallocate_def)
      with False a Some show ?thesis by auto
    next
      case True
      obtain st e2 where m: "cudaMemcpyAsync P p (m_data b) (m_size b * sizeof_value_type P) stream e1 = (st, e2)"
        by (cases "cudaMemcpyAsync P p (m_data b) (m_size b * sizeof_value_type P) stream e1")
      show ?thesis
      proof (cases "st = cudaSuccess")
        case ok: True
        with grow a Some True m have "\<exists>w'. resize P n stream (b, w) =
              Inr (b\<lparr>m_data := p, m_capacity := n, m_size := n\<rparr>, w')
            \<and> calls w' = calls w @ [Allocate (n * sizeof_value_type P) stream (Some p)]
                 @ [MemcpyAsync p (m_data b) (m_size b * sizeof_value_type P) stream cudaSuccess]
                 @ (if m_data b \<noteq> 0
                    then [Deallocate (m_data b) (m_capacity b * sizeof_value_type P) stream]
                    else [])"
          by (simp add: call_allocate_def call_deallocate_def call_cudaMemcpyAsync_def CUDA_CHECK_def)
        with True a Some show ?thesis by auto
      next
        case bad: False
        with grow a Some True m have "\<exists>w'. resize P n stream (b, w) = Inl (CudaError st, (b, w'))
            \<and> calls w' = calls w @ [Allocate (n * sizeof_value_type P) stream (Some p),
                 MemcpyAsync p (m_data b) (m_size b * sizeof_value_type P) stream st]"
          by (simp add: call_allocate_def call_cudaMemcpyAsync_def CUDA_CHECK_def)
        moreover from m have "st = fst (cudaMemcpyAsync P p (m_data b) (m_size b * sizeof_value_type P) stream e1)"
          by simp
        ultimately show ?thesis using bad by blast
      qed
    qed
  qed
qed

lemma tracksI:
  "unreturned (calls w) [] = Some held \<Longrightarrow> set (owned P b) \<subseteq> set held \<Longrightarrow> tracks P (b, w)"
  by (simp add: tracks_def)

lemma tracksE:
  assumes "tracks P (b, w)"
  obtains held where "unreturned (calls w) [] = Some held" and "set (owned P b) \<subseteq> set held"
  using assms by (auto simp add: tracks_def)

lemma resize_tracks:
  assumes "tracks P (b, w)"
  shows "tracks P (exec P (Resize n stream) (b, w))"
proof -
  from assms obtain held where u: "unreturned (calls w) [] = Some held"
    and o: "set (owned P b) \<subseteq> set held"
    by (rule tracksE)
  let ?old = "(m_data b, m_capacity b * sizeof_value_type P)"
  let ?bytes = "n * sizeof_value_type P"
  from resize_calls [of b n P stream w]
  consider
    (same) "resize P n stream (b, w) = Inr (b\<lparr>m_size := n\<rparr>, w)"
  | (nomem) w' where "resize P n stream (b, w) = Inl (AllocationError, (b, w'))"
      "calls w' = calls w @ [Allocate ?bytes stream None]"
  | (nocopy) w' p st where "resize P n stream (b, w) = Inl (CudaError st, (b, w'))"
      "calls w' = calls w @ [Allocate ?bytes stream (Some p),
         MemcpyAsync p (m_data b) (m_size b * sizeof_value_type P) stream st]"
  | (grown) w' p where "resize P n stream (b, w) =
        Inr (b\<lparr>m_data := p, m_capacity := n, m_size := n\<rparr>, w')"
      "calls w' = calls w @ [Allocate ?bytes stream (Some p)]
         @ (if 0 < m_size b
            then [MemcpyAsync p (m_data b) (m_size b * sizeof_value_type P) stream cudaSuccess]
            else [])
         @ (if m_data b \<noteq> 0 then [Deallocate (m_data b) (m_capacity b * sizeof_value_type P) stream]
            else [])"
    by blast
  then show ?thesis
  proof cases
    case same
    have "owned P (b\<lparr>m_size := n\<rparr>) = owned P b" by (simp add: owned_def)
    with same u o show ?thesis
      by (simp del: resize.simps add: tracks_def)
  next
    case nomem
    with u o show ?thesis
      by (simp del: resize.simps add: tracks_def unreturned_append)
  next
    case nocopy
    with u o show ?thesis
      by (auto simp del: resize.simps simp add: tracks_def unreturned_append)
  next
    case grown
    show ?thesis
    proof (cases "m_data b = 0")
      case True
      with grown u show ?thesis
        by (auto simp del: resize.simps simp add: tracks_def unreturned_append owned_def)
    next
      case False
      with o have "?old \<in> set held" by (simp add: owned_def)
      with grown u False show ?thesis
        by (auto simp del: resize.simps simp add: tracks_def unreturned_append owned_def)
    qed
  qed
qed

lemma exec_tracks:
  assumes "tracks P bw"
  shows "tracks P (exec P c bw)"
proof (cases bw)
  case (Pair b w)
  show ?thesis
  proof (cases c)
    case (Resize n stream)
    with Pair assms resize_tracks [of P b w n stream] show ?thesis by simp
  next
    case Clear
    have "owned P (b\<lparr>m_size := 0\<rparr>) = owned P b" by (simp add: owned_def)
    with Pair Clear assms show ?thesis by (simp add: tracks_def)
  next
    case (Release stream)
    with Pair assms show ?thesis
      by (auto simp add: tracks_def owned_def call_deallocate_def unreturned_append
            split: option.splits)
  next
    case (Assign pos v)
    with Pair assms show ?thesis by (simp add: tracks_def)
  qed
qed

lemma run_tracks: "tracks P bw \<Longrightarrow> tracks P (run P cs bw)"
  by (induction cs arbitrary: bw) (simp_all add: exec_tracks)

lemma ctor_tracks:
  assumes "unreturned (calls w) [] = Some held"
  shows "case host_buffer_ctor P A n w of
           Inl (err, w') \<Rightarrow> unreturned (calls w') [] \<noteq> None
         | Inr bw \<Rightarrow> tracks P bw"
  using assms
  by (auto simp add: host_buffer_ctor_def Let_def tracks_def owned_def unreturned_append
        call_allocate_def call_cudaStreamSynchronize_def CUDA_CHECK_def
        split: prod.splits option.splits)

lemma dtor_tracks:
  assumes "tracks P bw"
  shows "unreturned (calls (host_buffer_dtor P bw)) [] \<noteq> None"
proof (cases bw)
  case (Pair b w)
  with assms show ?thesis
    by (auto simp add: tracks_def owned_def call_deallocate_def unreturned_append
          split: option.splits)
qed

text \<open>No call of \<open>deallocate\<close> in the life of a buffer names a block that is not held.\<close>

lemma lifetime_no_double_free:
  assumes "unreturned (calls w) [] = Some held"
  shows "unreturned (calls (lifetime P A n cs w)) [] \<noteq> None"
proof (cases "host_buffer_ctor P A n w")
  case (Inl x)
  with ctor_tracks [OF assms, of P A n] show ?thesis
    by (cases x) (simp add: lifetime_def)
next
  case (Inr bw)
  with ctor_tracks [OF assms, of P A n] have "tracks P bw" by simp
  then have "tracks P (run P cs bw)" by (rule run_tracks)
  then have "unreturned (calls (host_buffer_dtor P (run P cs bw))) [] \<noteq> None"
    by (rule dtor_tracks)
  with Inr show ?thesis by (simp add: lifetime_def)
qed

lemma resize_balanced:
  assumes bal: "balanced P h (b, w)" and cu: "cuda_succeeds P"
    and nn: "returns_nonnull (m_allocator b)"
  shows "balanced P h (exec P (Resize n stream) (b, w))
         \<and> m_allocator (fst (exec P (Resize n stream) (b, w))) = m_allocator b"
proof -
  from bal have u: "unreturned (calls w) [] = Some (owned P b @ h)"
    by (simp add: balanced_def)
  let ?bytes = "n * sizeof_value_type P"
  from resize_calls [of b n P stream w]
  consider
    (same) "resize P n stream (b, w) = Inr (b\<lparr>m_size := n\<rparr>, w)"
  | (nomem) w' where "resize P n stream (b, w) = Inl (AllocationError, (b, w'))"
      "calls w' = calls w @ [Allocate ?bytes stream None]"
  | (nocopy) p e st where
      "st = fst (cudaMemcpyAsync P p (m_data b) (m_size b * sizeof_value_type P) stream e)"
      "st \<noteq> cudaSuccess"
  | (grown) w' p e e' where "resize P n stream (b, w) =
        Inr (b\<lparr>m_data := p, m_capacity := n, m_size := n\<rparr>, w')"
      "allocate (m_allocator b) ?bytes stream e = (Some p, e')"
      "calls w' = calls w @ [Allocate ?bytes stream (Some p)]
         @ (if 0 < m_size b
            then [MemcpyAsync p (m_data b) (m_size b * sizeof_value_type P) stream cudaSuccess]
            else [])
         @ (if m_data b \<noteq> 0 then [Deallocate (m_data b) (m_capacity b * sizeof_value_type P) stream]
            else [])"
    by blast
  then show ?thesis
  proof cases
    case same
    have "owned P (b\<lparr>m_size := n\<rparr>) = owned P b" by (simp add: owned_def)
    with same u show ?thesis
      by (simp del: resize.simps add: balanced_def)
  next
    case nomem
    with u show ?thesis
      by (simp del: resize.simps add: balanced_def unreturned_append)
  next
    case nocopy
    with cu show ?thesis by (simp add: cuda_succeeds_def)
  next
    case grown
    from returns_nonnullD [OF nn grown(2)] have p: "p \<noteq> 0" .
    with grown(1,3) u show ?thesis
      by (auto simp del: resize.simps simp add: balanced_def unreturned_append owned_def)
  qed
qed

lemma exec_balanced:
  assumes "balanced P h bw" and "cuda_succeeds P" and "returns_nonnull (m_allocator (fst bw))"
  shows "balanced P h (exec P c bw) \<and> m_allocator (fst (exec P c bw)) = m_allocator (fst bw)"
proof (cases bw)
  case (Pair b w)
  show ?thesis
  proof (cases c)
    case (Resize n stream)
    with Pair assms resize_balanced [of P h b w n stream] show ?thesis by simp
  next
    case Clear
    have "owned P (b\<lparr>m_size := 0\<rparr>) = owned P b" by (simp add: owned_def)
    with Pair Clear assms show ?thesis by (simp add: balanced_def)
  next
    case (Release stream)
    with Pair assms show ?thesis
      by (auto simp add: balanced_def owned_def call_deallocate_def unreturned_append)
  next
    case (Assign pos v)
    with Pair assms show ?thesis by (simp add: balanced_def)
  qed
qed

lemma run_balanced:
  assumes "balanced P h bw" and "cuda_succeeds P" and "returns_nonnull (m_allocator (fst bw))"
  shows "balanced P h (run P cs bw)"
  using assms
proof (induction cs arbitrary: bw)
  case Nil
  then show ?case by simp
next
  case (Cons c cs)
  from exec_balanced [OF Cons.prems, of c]
  have "balanced P h (exec P c bw)" "returns_nonnull (m_allocator (fst (exec P c bw)))"
    using Cons.prems(3) by simp_all
  from Cons.IH [OF this(1) Cons.prems(2) this(2)] show ?case by simp
qed

lemma ctor_balanced:
  assumes "unreturned (calls w) [] = Some h" and "cuda_succeeds P" and "returns_nonnull A"
  shows "case host_buffer_ctor P A n w of
           Inl (err, w') \<Rightarrow> unreturned (calls w') [] = Some h
         | Inr bw \<Rightarrow> balanced P h bw \<and> m_allocator (fst bw) = A"
proof (cases "0 < n")
  case False
  with assms(1) show ?thesis
    by (simp add: host_buffer_ctor_def balanced_def owned_def)
next
  case True
  obtain r e1 where a: "allocate A (n * sizeof_value_type P) 0 (ext w) = (r, e1)"
    by (cases "allocate A (n * sizeof_value_type P) 0 (ext w)")
  obtain st e2 where s: "cudaStreamSynchronize P 0 e1 = (st, e2)"
    by (cases "cudaStreamSynchronize P 0 e1")
  from assms(2) have "fst (cudaStreamSynchronize P 0 e1) = cudaSuccess"
    by (simp add: cuda_succeeds_def)
  with s have st: "st = cudaSuccess" by simp
  show ?thesis
  proof (cases r)
    case None
    with True a assms(1) show ?thesis
      by (simp add: host_buffer_ctor_def call_allocate_def unreturned_append)
  next
    case (Some p)
    with returns_nonnullD [OF assms(3)] a have "p \<noteq> 0" by blast
    with True a s st Some assms(1) show ?thesis
      by (simp add: host_buffer_ctor_def call_allocate_def call_cudaStreamSynchronize_def
            CUDA_CHECK_def balanced_def owned_def unreturned_append)
  qed
qed

lemma dtor_balanced:
  assumes "balanced P h bw"
  shows "unreturned (calls (host_buffer_dtor P bw)) [] = Some h"
proof (cases bw)
  case (Pair b w)
  with assms show ?thesis
    by (auto simp add: balanced_def owned_def call_deallocate_def unreturned_append)
qed

text \<open>
  When no CUDA call reports an error and the allocator returns no null block, the blocks
  held at the end of the life of a buffer are those held at its beginning: each block the
  buffer obtained has been returned once, with its size, whether or not calls of
  \<open>allocate\<close> failed on the way.
\<close>

lemma lifetime_balanced:
  assumes "unreturned (calls w) [] = Some h" and "cuda_succeeds P" and "returns_nonnull A"
  shows "unreturned (calls (lifetime P A n cs w)) [] = Some h"
proof (cases "host_buffer_ctor P A n w")
  case (Inl x)
  with ctor_balanced [OF assms, of n] show ?thesis
    by (cases x) (simp add: lifetime_def)
next
  case (Inr bw)
  with ctor_balanced [OF assms, of n] have "balanced P h bw" and "returns_nonnull (m_allocator (fst bw))"
    using assms(3) by simp_all
  from run_balanced [OF this(1) assms(2) this(2)] have "balanced P h (run P cs bw)" .
  then have "unreturned (calls (host_buffer_dtor P (run P cs bw))) [] = Some h"
    by (rule dtor_balanced)
  with Inr show ?thesis by (simp add: lifetime_def)
qed

text \<open>
  C4. Over the life of a buffer (construction, any calls, destruction), every block obtained
  from the allocator is returned to it exactly once with the size it was allocated with,
  and no \<open>deallocate\<close> names a block that is not held. The second part holds on every
  run (\<open>lifetime_no_double_free\<close>), and the first on every run in which no CUDA call
  reports an error, failed calls of \<open>allocate\<close> included (\<open>lifetime_balanced\<close>). The first
  part fails on the run below. A buffer of two elements is constructed; \<open>resize(4)\<close>
  obtains a block of 16 bytes at 4104; the copy into it is refused, so \<open>CUDA_CHECK\<close> throws
  before \<open>resize\<close> has either adopted or returned the new block; the caller catches the
  exception and the buffer is destroyed. The destructor returns the old block. The new
  block is never returned.
\<close>

theorem failed_copy_leaks_block:
  "calls (lifetime failing_copy_platform (budget_allocator 1000) 2 [Resize 4 7] world0) =
     [Allocate 8 0 (Some 4096), StreamSynchronize 0 cudaSuccess,
      Allocate 16 7 (Some 4104), MemcpyAsync 4104 4096 8 7 (cudaErrorCode 1),
      Deallocate 4096 8 0]
   \<and> unreturned (calls (lifetime failing_copy_platform (budget_allocator 1000) 2 [Resize 4 7] world0)) []
       = Some [(4104, 16)]"
  by (simp add: lifetime_def host_buffer_ctor_def failing_copy_platform_def good_platform_def
        budget_allocator_def world0_def call_allocate_def call_deallocate_def
        call_cudaStreamSynchronize_def call_cudaMemcpyAsync_def CUDA_CHECK_def)

end
